theory Spec2Isabelle
  imports Main "HOL-Library.Char_ord" "HOL-Library.List_Lexorder" "HOL-Library.Multiset"
begin

section \<open>The reviews application: data model\<close>

text \<open>
  The module \<^verbatim>\<open>reviews/models.py\<close> declares the persistent schema of the application
  as Django model classes. A model class is embedded as a record of its columns, a table
  as the list of its rows (in insertion order), and the database as a record of tables.
  The behaviour the declarations select in the framework (validators run by
  \<^verbatim>\<open>full_clean\<close>, \<^verbatim>\<open>pre_save\<close> of an \<^verbatim>\<open>auto_now_add\<close> field, the uniqueness,
  foreign-key and check constraints of the tables, the \<^verbatim>\<open>on_delete\<close> actions of the
  deletion collector, \<^verbatim>\<open>Meta.ordering\<close>) is written out as functions on that state.
  Failures are values: a \<^verbatim>\<open>ValidationError\<close> is raised by validation, before any write;
  an \<^verbatim>\<open>IntegrityError\<close> is raised by the storage layer when a write breaks a constraint.
  A failing operation returns only the error: the database it was applied to is unchanged.
\<close>

type_synonym pk = nat
type_synonym datetime = int

datatype error = ValidationError | IntegrityError

subsection \<open>User\<close>

text \<open>
  The columns of \<^verbatim>\<open>User\<close> that the module declares (username, email, bio, role), with
  the primary key and the \<^verbatim>\<open>is_superuser\<close> flag inherited from \<^verbatim>\<open>AbstractUser\<close>. The
  other inherited columns (password, names, staff and active flags, login dates) are read
  by nothing in the module. \<^verbatim>\<open>role\<close> is a character column: its \<^verbatim>\<open>choices\<close> are
  checked by validation only, so the stored value is a string.
\<close>

record User =
  user_id :: pk
  username :: string
  email :: string
  bio :: string
  role :: string
  is_superuser :: bool

definition USER :: string where "USER = ''user''"
definition ADMIN :: string where "ADMIN = ''admin''"
definition MODERATOR :: string where "MODERATOR = ''moderator''"

text \<open>The concrete fields of the \<^verbatim>\<open>User\<close> table: the inherited ones, then the declared ones.\<close>

definition User_fields :: "string list" where
  "User_fields =
     [''id'', ''password'', ''last_login'', ''is_superuser'', ''first_name'', ''last_name'',
      ''is_staff'', ''is_active'', ''date_joined'', ''username'', ''email'', ''bio'', ''role'']"

text \<open>\<^verbatim>\<open>return self.role == self.ADMIN or self.is_superuser\<close>\<close>

definition is_admin :: "User \<Rightarrow> bool" where
  "is_admin u = (role u = ADMIN \<or> is_superuser u)"

text \<open>\<^verbatim>\<open>return self.role == self.MODERATOR\<close>\<close>

definition is_moderator :: "User \<Rightarrow> bool" where
  "is_moderator u = (role u = MODERATOR)"

subsection \<open>Constants and validators imported by the module\<close>

text \<open>
  The module imports six constants from \<^verbatim>\<open>reviews.constants\<close>. Their values are policy
  and are taken as a parameter: every statement below holds for all of them.
\<close>

record constants =
  EMAIL_MAX_LENGTH :: nat
  FIELD_MAX_LENGTH :: nat
  LENGTH_TO_DISPLAY :: nat
  MAX_SCORE_VALUE :: int
  MIN_SCORE_VALUE :: int
  USERNAME_MAX_LENGTH :: nat

text \<open>
  \<^verbatim>\<open>MinValueValidator(limit)\<close> raises when the value is below the limit,
  \<^verbatim>\<open>MaxValueValidator(limit)\<close> when it is above.
\<close>

definition MinValueValidator :: "int \<Rightarrow> int \<Rightarrow> error + unit" where
  "MinValueValidator limit v = (if v < limit then Inl ValidationError else Inr ())"

definition MaxValueValidator :: "int \<Rightarrow> int \<Rightarrow> error + unit" where
  "MaxValueValidator limit v = (if v > limit then Inl ValidationError else Inr ())"

text \<open>
  Modelled from the spec: \<^verbatim>\<open>validate_year\<close> of \<^verbatim>\<open>reviews/validators.py\<close>, which the
  module imports and attaches to \<^verbatim>\<open>Title.year\<close>. It fails with a validation error when the
  value is greater than the current calendar year, and enforces no lower bound. The
  current year is read from the clock and is the first argument here.
\<close>

definition validate_year :: "int \<Rightarrow> int \<Rightarrow> error + unit" where
  "validate_year current_year v = (if v > current_year then Inl ValidationError else Inr ())"

text \<open>
  A field runs each of its validators on the value and raises one validation error when
  any of them has raised.
\<close>

fun run_validators :: "('a \<Rightarrow> error + unit) list \<Rightarrow> 'a \<Rightarrow> error + unit" where
  "run_validators [] v = Inr ()"
| "run_validators (f # fs) v =
     (case f v of Inl e \<Rightarrow> Inl e | Inr _ \<Rightarrow> run_validators fs v)"

text \<open>
  An integer field adds to its declared validators the bounds that the database backend
  reports for the column type (\<^verbatim>\<open>connection.ops.integer_field_range\<close>). For a
  \<^verbatim>\<open>PositiveSmallIntegerField\<close> a backend reports \<^verbatim>\<open>(0, 32767)\<close> or, when it bounds
  nothing itself, \<^verbatim>\<open>(None, None)\<close>. The pair is a parameter.
\<close>

type_synonym field_range = "int option \<times> int option"

definition range_validators :: "field_range \<Rightarrow> (int \<Rightarrow> error + unit) list" where
  "range_validators rng =
     (case fst rng of None \<Rightarrow> [] | Some lo \<Rightarrow> [MinValueValidator lo]) @
     (case snd rng of None \<Rightarrow> [] | Some hi \<Rightarrow> [MaxValueValidator hi])"

text \<open>
  The column of a \<^verbatim>\<open>PositiveSmallIntegerField\<close> does not store a negative number: the
  table carries the check \<^verbatim>\<open>column >= 0\<close> (an unsigned column where the backend has one).
\<close>

definition PositiveSmallIntegerField_db_check :: "int \<Rightarrow> bool" where
  "PositiveSmallIntegerField_db_check v = (0 \<le> v)"

text \<open>
  \<^verbatim>\<open>DateTimeField.pre_save(instance, add)\<close>: with \<^verbatim>\<open>auto_now\<close>, or with
  \<^verbatim>\<open>auto_now_add\<close> while the row is being added, the field is set to the current time;
  otherwise the value is read from the instance.
\<close>

definition DateTimeField_pre_save ::
  "bool \<Rightarrow> bool \<Rightarrow> bool \<Rightarrow> datetime \<Rightarrow> datetime option \<Rightarrow> datetime option" where
  "DateTimeField_pre_save auto_now auto_now_add add now attr =
     (if auto_now \<or> (auto_now_add \<and> add) then Some now else attr)"

text \<open>
  The \<^verbatim>\<open>on_delete\<close> actions the module uses. When the referenced row is deleted,
  \<^verbatim>\<open>CASCADE\<close> deletes the referencing rows and \<^verbatim>\<open>SET_NULL\<close> clears their reference.
\<close>

datatype on_delete = CASCADE | SET_NULL

fun on_delete_rows :: "on_delete \<Rightarrow> ('r \<Rightarrow> bool) \<Rightarrow> ('r \<Rightarrow> 'r) \<Rightarrow> 'r list \<Rightarrow> 'r list" where
  "on_delete_rows CASCADE refers clear rows = filter (\<lambda>r. \<not> refers r) rows"
| "on_delete_rows SET_NULL refers clear rows = map (\<lambda>r. if refers r then clear r else r) rows"

text \<open>The primary key of a new row is one the table has not used.\<close>

definition next_pk :: "pk list \<Rightarrow> pk" where
  "next_pk ids = Suc (fold max ids 0)"

subsection \<open>Category, Genre, Title, GenreTitle\<close>

record Category =
  category_id :: pk
  category_name :: string
  category_slug :: string

record Genre =
  genre_id :: pk
  genre_name :: string
  genre_slug :: string

text \<open>
  \<^verbatim>\<open>Title\<close>: the many-to-many field \<^verbatim>\<open>genre\<close> has no column; its links are the rows
  of \<^verbatim>\<open>GenreTitle\<close>. \<^verbatim>\<open>category\<close> is a nullable foreign key.
\<close>

record Title =
  title_id :: pk
  title_name :: string
  year :: int
  description :: string
  category :: "pk option"

definition Title_fields :: "string list" where
  "Title_fields = [''id'', ''name'', ''year'', ''description'', ''genre'', ''category'']"

definition Title_category_on_delete :: on_delete where
  "Title_category_on_delete = SET_NULL"

text \<open>
  \<^verbatim>\<open>GenreTitle\<close> declares its two foreign keys and nothing else: it has the implicit
  primary key \<^verbatim>\<open>id\<close> and no \<^verbatim>\<open>Meta\<close>, so no uniqueness constraint.
\<close>

record GenreTitle =
  genre_title_id :: pk
  gt_title :: pk
  gt_genre :: pk

definition GenreTitle_title_on_delete :: on_delete where
  "GenreTitle_title_on_delete = CASCADE"

definition GenreTitle_genre_on_delete :: on_delete where
  "GenreTitle_genre_on_delete = CASCADE"

subsection \<open>Review, Comment\<close>

record Review =
  review_id :: pk
  review_title :: pk
  review_text :: string
  review_author :: pk
  score :: int
  review_pub_date :: datetime

definition Review_title_on_delete :: on_delete where
  "Review_title_on_delete = CASCADE"

definition Review_author_on_delete :: on_delete where
  "Review_author_on_delete = CASCADE"

record Comment =
  comment_id :: pk
  comment_review :: pk
  comment_text :: string
  comment_author :: pk
  comment_pub_date :: datetime

definition Comment_review_on_delete :: on_delete where
  "Comment_review_on_delete = CASCADE"

definition Comment_author_on_delete :: on_delete where
  "Comment_author_on_delete = CASCADE"

text \<open>\<^verbatim>\<open>pub_date = models.DateTimeField(auto_now_add=True, ...)\<close>, in both models.\<close>

definition pub_date_pre_save :: "bool \<Rightarrow> datetime \<Rightarrow> datetime option \<Rightarrow> datetime option" where
  "pub_date_pre_save add now attr = DateTimeField_pre_save False True add now attr"

subsection \<open>The database\<close>

record db =
  users :: "User list"
  categories :: "Category list"
  genres :: "Genre list"
  titles :: "Title list"
  genre_titles :: "GenreTitle list"
  reviews :: "Review list"
  comments :: "Comment list"

subsection \<open>Validation\<close>

text \<open>
  The validators of \<^verbatim>\<open>Review.score\<close> and of \<^verbatim>\<open>Title.year\<close>: the declared ones, then
  the bounds of the column type.
\<close>

definition Review_score_validators :: "constants \<Rightarrow> field_range \<Rightarrow> (int \<Rightarrow> error + unit) list" where
  "Review_score_validators c rng =
     [MinValueValidator (MIN_SCORE_VALUE c), MaxValueValidator (MAX_SCORE_VALUE c)] @
     range_validators rng"

definition Title_year_validators :: "int \<Rightarrow> field_range \<Rightarrow> (int \<Rightarrow> error + unit) list" where
  "Title_year_validators current_year rng = [validate_year current_year] @ range_validators rng"

definition Title_year_clean :: "int \<Rightarrow> field_range \<Rightarrow> int \<Rightarrow> error + unit" where
  "Title_year_clean current_year rng v = run_validators (Title_year_validators current_year rng) v"

text \<open>
  \<^verbatim>\<open>full_clean\<close> of a \<^verbatim>\<open>Review\<close> instance with primary key \<open>pko\<close> (\<open>None\<close> before the
  first save): the referenced title and author exist, the text is not blank, the score
  passes its validators, and no other row has the same title and author. \<^verbatim>\<open>pub_date\<close>
  is not editable and is skipped. Nothing is written.
\<close>

definition Review_full_clean ::
  "constants \<Rightarrow> field_range \<Rightarrow> db \<Rightarrow> pk option \<Rightarrow> pk \<Rightarrow> string \<Rightarrow> pk \<Rightarrow> int \<Rightarrow> error + unit" where
  "Review_full_clean c rng db pko t txt a sc =
     (if t \<notin> set (map title_id (titles db)) then Inl ValidationError
      else if txt = [] then Inl ValidationError
      else if a \<notin> set (map user_id (users db)) then Inl ValidationError
      else case run_validators (Review_score_validators c rng) sc of
        Inl e \<Rightarrow> Inl e
      | Inr _ \<Rightarrow>
          if list_ex (\<lambda>x. Some (review_id x) \<noteq> pko \<and> review_title x = t \<and> review_author x = a)
               (reviews db)
          then Inl ValidationError else Inr ())"

subsection \<open>Writes\<close>

text \<open>
  The constraints of the \<^verbatim>\<open>Review\<close> table, checked by the storage layer on every insert
  and update: the two foreign keys, the check of the positive column, and
  \<^verbatim>\<open>UniqueConstraint(fields=['title', 'author'], name='unique_review')\<close>.
\<close>

definition Review_constraints :: "db \<Rightarrow> Review \<Rightarrow> bool" where
  "Review_constraints db r =
     (review_title r \<in> set (map title_id (titles db)) \<and>
      review_author r \<in> set (map user_id (users db)) \<and>
      PositiveSmallIntegerField_db_check (score r) \<and>
      \<not> list_ex (\<lambda>x. review_id x \<noteq> review_id r \<and> review_title x = review_title r \<and>
                       review_author x = review_author r) (reviews db))"

definition Review_insert :: "db \<Rightarrow> Review \<Rightarrow> error + db" where
  "Review_insert db r =
     (if Review_constraints db r then Inr (db\<lparr>reviews := reviews db @ [r]\<rparr>)
      else Inl IntegrityError)"

text \<open>
  \<^verbatim>\<open>Review.objects.create(title=t, text=txt, author=a, score=sc, pub_date=pd)\<close>, where
  \<open>pd\<close> is \<open>None\<close> when the caller passes no \<^verbatim>\<open>pub_date\<close>. \<^verbatim>\<open>create\<close> saves the
  instance; saving runs no validator.
\<close>

definition Review_create ::
  "db \<Rightarrow> datetime \<Rightarrow> pk \<Rightarrow> string \<Rightarrow> pk \<Rightarrow> int \<Rightarrow> datetime option \<Rightarrow> error + db" where
  "Review_create db now t txt a sc pd =
     (case pub_date_pre_save True now pd of
        None \<Rightarrow> Inl IntegrityError
      | Some d \<Rightarrow>
          Review_insert db
            \<lparr>review_id = next_pk (map review_id (reviews db)), review_title = t,
             review_text = txt, review_author = a, score = sc, review_pub_date = d\<rparr>)"

text \<open>
  \<^verbatim>\<open>r.save()\<close> of an instance that has a primary key: the row with that key is updated
  with the attributes of the instance; when there is none, the instance is inserted.
\<close>

definition Review_save :: "db \<Rightarrow> datetime \<Rightarrow> Review \<Rightarrow> error + db" where
  "Review_save db now r =
     (if review_id r \<in> set (map review_id (reviews db)) then
        (case pub_date_pre_save False now (Some (review_pub_date r)) of
           None \<Rightarrow> Inl IntegrityError
         | Some d \<Rightarrow>
             if Review_constraints db (r\<lparr>review_pub_date := d\<rparr>)
             then Inr (db\<lparr>reviews :=
                    map (\<lambda>x. if review_id x = review_id r then r\<lparr>review_pub_date := d\<rparr> else x)
                      (reviews db)\<rparr>)
             else Inl IntegrityError)
      else
        (case pub_date_pre_save True now (Some (review_pub_date r)) of
           None \<Rightarrow> Inl IntegrityError
         | Some d \<Rightarrow> Review_insert db (r\<lparr>review_pub_date := d\<rparr>)))"

text \<open>Validation, then the save: what a form or a serializer of the model does.\<close>

definition Review_validated_create ::
  "constants \<Rightarrow> field_range \<Rightarrow> db \<Rightarrow> datetime \<Rightarrow> pk \<Rightarrow> string \<Rightarrow> pk \<Rightarrow> int \<Rightarrow>
   datetime option \<Rightarrow> error + db" where
  "Review_validated_create c rng db now t txt a sc pd =
     (case Review_full_clean c rng db None t txt a sc of
        Inl e \<Rightarrow> Inl e
      | Inr _ \<Rightarrow> Review_create db now t txt a sc pd)"

definition Comment_constraints :: "db \<Rightarrow> Comment \<Rightarrow> bool" where
  "Comment_constraints db c =
     (comment_review c \<in> set (map review_id (reviews db)) \<and>
      comment_author c \<in> set (map user_id (users db)))"

definition Comment_insert :: "db \<Rightarrow> Comment \<Rightarrow> error + db" where
  "Comment_insert db c =
     (if Comment_constraints db c then Inr (db\<lparr>comments := comments db @ [c]\<rparr>)
      else Inl IntegrityError)"

definition Comment_create ::
  "db \<Rightarrow> datetime \<Rightarrow> pk \<Rightarrow> string \<Rightarrow> pk \<Rightarrow> datetime option \<Rightarrow> error + db" where
  "Comment_create db now r txt a pd =
     (case pub_date_pre_save True now pd of
        None \<Rightarrow> Inl IntegrityError
      | Some d \<Rightarrow>
          Comment_insert db
            \<lparr>comment_id = next_pk (map comment_id (comments db)), comment_review = r,
             comment_text = txt, comment_author = a, comment_pub_date = d\<rparr>)"

definition Comment_save :: "db \<Rightarrow> datetime \<Rightarrow> Comment \<Rightarrow> error + db" where
  "Comment_save db now c =
     (if comment_id c \<in> set (map comment_id (comments db)) then
        (case pub_date_pre_save False now (Some (comment_pub_date c)) of
           None \<Rightarrow> Inl IntegrityError
         | Some d \<Rightarrow>
             if Comment_constraints db (c\<lparr>comment_pub_date := d\<rparr>)
             then Inr (db\<lparr>comments :=
                    map (\<lambda>x. if comment_id x = comment_id c then c\<lparr>comment_pub_date := d\<rparr> else x)
                      (comments db)\<rparr>)
             else Inl IntegrityError)
      else
        (case pub_date_pre_save True now (Some (comment_pub_date c)) of
           None \<Rightarrow> Inl IntegrityError
         | Some d \<Rightarrow> Comment_insert db (c\<lparr>comment_pub_date := d\<rparr>)))"

text \<open>
  \<^verbatim>\<open>Title.objects.create(name=nm, year=yr, description=d, category=cat)\<close>: the year
  column is checked to be non-negative, the category, when given, to exist.
\<close>

definition Title_create :: "db \<Rightarrow> string \<Rightarrow> int \<Rightarrow> string \<Rightarrow> pk option \<Rightarrow> error + db" where
  "Title_create db nm yr d cat =
     (if PositiveSmallIntegerField_db_check yr \<and>
         (case cat of None \<Rightarrow> True | Some k \<Rightarrow> k \<in> set (map category_id (categories db)))
      then Inr (db\<lparr>titles := titles db @
             [\<lparr>title_id = next_pk (map title_id (titles db)), title_name = nm, year = yr,
               description = d, category = cat\<rparr>]\<rparr>)
      else Inl IntegrityError)"

text \<open>
  \<^verbatim>\<open>GenreTitle.objects.create(title=t, genre=g)\<close>: the two foreign keys are the only
  constraints of the table.
\<close>

definition GenreTitle_create :: "db \<Rightarrow> pk \<Rightarrow> pk \<Rightarrow> error + db" where
  "GenreTitle_create db t g =
     (if t \<in> set (map title_id (titles db)) \<and> g \<in> set (map genre_id (genres db))
      then Inr (db\<lparr>genre_titles := genre_titles db @
             [\<lparr>genre_title_id = next_pk (map genre_title_id (genre_titles db)),
               gt_title = t, gt_genre = g\<rparr>]\<rparr>)
      else Inl IntegrityError)"

subsection \<open>Deletes\<close>

text \<open>
  Deleting a row collects the rows that refer to it and applies the \<^verbatim>\<open>on_delete\<close>
  action of each referring foreign key; a cascade goes on from the rows it deletes. The
  reviews a delete collects take their comments with them
  (\<^verbatim>\<open>Comment.review\<close>, \<^verbatim>\<open>on_delete=models.CASCADE\<close>).
\<close>

definition Comment_delete :: "db \<Rightarrow> pk \<Rightarrow> db" where
  "Comment_delete db k = db\<lparr>comments := filter (\<lambda>c. comment_id c \<noteq> k) (comments db)\<rparr>"

definition Review_delete :: "db \<Rightarrow> pk \<Rightarrow> db" where
  "Review_delete db k =
     db\<lparr>reviews := filter (\<lambda>r. review_id r \<noteq> k) (reviews db),
        comments := on_delete_rows Comment_review_on_delete (\<lambda>c. comment_review c = k) id
                      (comments db)\<rparr>"

definition Title_delete :: "db \<Rightarrow> pk \<Rightarrow> db" where
  "Title_delete db k =
     (let rids = map review_id (filter (\<lambda>r. review_title r = k) (reviews db)) in
      db\<lparr>titles := filter (\<lambda>t. title_id t \<noteq> k) (titles db),
         genre_titles := on_delete_rows GenreTitle_title_on_delete (\<lambda>g. gt_title g = k) id
                           (genre_titles db),
         reviews := on_delete_rows Review_title_on_delete (\<lambda>r. review_title r = k) id
                      (reviews db),
         comments := on_delete_rows Comment_review_on_delete
                       (\<lambda>c. comment_review c \<in> set rids) id (comments db)\<rparr>)"

definition Genre_delete :: "db \<Rightarrow> pk \<Rightarrow> db" where
  "Genre_delete db k =
     db\<lparr>genres := filter (\<lambda>g. genre_id g \<noteq> k) (genres db),
        genre_titles := on_delete_rows GenreTitle_genre_on_delete (\<lambda>g. gt_genre g = k) id
                          (genre_titles db)\<rparr>"

definition Category_delete :: "db \<Rightarrow> pk \<Rightarrow> db" where
  "Category_delete db k =
     db\<lparr>categories := filter (\<lambda>c. category_id c \<noteq> k) (categories db),
        titles := on_delete_rows Title_category_on_delete (\<lambda>t. category t = Some k)
                    (\<lambda>t. t\<lparr>category := None\<rparr>) (titles db)\<rparr>"

definition User_delete :: "db \<Rightarrow> pk \<Rightarrow> db" where
  "User_delete db k =
     (let rids = map review_id (filter (\<lambda>r. review_author r = k) (reviews db)) in
      db\<lparr>users := filter (\<lambda>u. user_id u \<noteq> k) (users db),
         reviews := on_delete_rows Review_author_on_delete (\<lambda>r. review_author r = k) id
                      (reviews db),
         comments := on_delete_rows Comment_author_on_delete (\<lambda>c. comment_author c = k) id
                       (on_delete_rows Comment_review_on_delete
                          (\<lambda>c. comment_review c \<in> set rids) id (comments db))\<rparr>)"

subsection \<open>Operations on the database\<close>

datatype db_op =
    CreateTitle string int string "pk option"
  | CreateGenreTitle pk pk
  | CreateReview pk string pk int "datetime option"
  | SaveReview Review
  | CreateComment pk string pk "datetime option"
  | SaveComment Comment
  | DeleteTitle pk
  | DeleteCategory pk
  | DeleteGenre pk
  | DeleteUser pk
  | DeleteReview pk
  | DeleteComment pk

fun apply_op :: "db \<Rightarrow> datetime \<Rightarrow> db_op \<Rightarrow> error + db" where
  "apply_op db now (CreateTitle nm yr d cat) = Title_create db nm yr d cat"
| "apply_op db now (CreateGenreTitle t g) = GenreTitle_create db t g"
| "apply_op db now (CreateReview t txt a sc pd) = Review_create db now t txt a sc pd"
| "apply_op db now (SaveReview r) = Review_save db now r"
| "apply_op db now (CreateComment r txt a pd) = Comment_create db now r txt a pd"
| "apply_op db now (SaveComment c) = Comment_save db now c"
| "apply_op db now (DeleteTitle k) = Inr (Title_delete db k)"
| "apply_op db now (DeleteCategory k) = Inr (Category_delete db k)"
| "apply_op db now (DeleteGenre k) = Inr (Genre_delete db k)"
| "apply_op db now (DeleteUser k) = Inr (User_delete db k)"
| "apply_op db now (DeleteReview k) = Inr (Review_delete db k)"
| "apply_op db now (DeleteComment k) = Inr (Comment_delete db k)"

text \<open>No two rows of \<^verbatim>\<open>Review\<close> have the same title and author.\<close>

definition unique_review :: "db \<Rightarrow> bool" where
  "unique_review db = distinct (map (\<lambda>r. (review_title r, review_author r)) (reviews db))"

text \<open>No two rows of \<^verbatim>\<open>Review\<close> have the same primary key.\<close>

definition Review_pk_unique :: "db \<Rightarrow> bool" where
  "Review_pk_unique db = distinct (map review_id (reviews db))"

subsection \<open>Listing\<close>

text \<open>
  \<^verbatim>\<open>User.objects.all()\<close>: \<^verbatim>\<open>Meta.ordering = ['username']\<close> orders a query that asks
  for no order by username, ascending. Strings compare lexicographically by character
  code.
\<close>

definition User_objects_all :: "db \<Rightarrow> User list" where
  "User_objects_all db = sort_key username (users db)"

subsection \<open>Rating\<close>

text \<open>
  Modelled from the spec: the rating of a title, computed outside the module by an
  aggregation step, is a query-time aggregate over the scores of the reviews of the
  title. The aggregate function (mean, rounding) is left open and is the parameter
  \<open>agg\<close>.
\<close>

definition rating :: "(int list \<Rightarrow> 'a) \<Rightarrow> db \<Rightarrow> pk \<Rightarrow> 'a" where
  "rating agg db k = agg (map score (filter (\<lambda>r. review_title r = k) (reviews db)))"

subsection \<open>Migration 0003\<close>

text \<open>
  The state of a model in the migration graph: its fields by name (with the field
  class) and its \<^verbatim>\<open>unique_together\<close> option. A project state maps the lower-case
  model name to the state of the model.
\<close>

record model_state =
  ms_fields :: "(string \<times> string) list"
  ms_unique_together :: "string list list"

type_synonym project_state = "string \<rightharpoonup> model_state"

datatype migration_operation =
    RemoveField string string
  | AlterField string string string
  | AlterUniqueTogether string "string list list"

text \<open>
  \<^verbatim>\<open>state_forwards\<close> of the three operations. A model or a field to remove that the
  state does not have is a \<^verbatim>\<open>KeyError\<close>: \<open>None\<close>.
\<close>

fun state_forwards :: "migration_operation \<Rightarrow> project_state \<Rightarrow> project_state option" where
  "state_forwards (RemoveField m n) st =
     (case st m of
        None \<Rightarrow> None
      | Some ms \<Rightarrow>
          if n \<in> set (map fst (ms_fields ms))
          then Some (st(m \<mapsto> ms\<lparr>ms_fields := filter (\<lambda>f. fst f \<noteq> n) (ms_fields ms)\<rparr>))
          else None)"
| "state_forwards (AlterField m n f) st =
     (case st m of
        None \<Rightarrow> None
      | Some ms \<Rightarrow>
          Some (st(m \<mapsto> ms\<lparr>ms_fields :=
            (if n \<in> set (map fst (ms_fields ms))
             then map (\<lambda>x. if fst x = n then (n, f) else x) (ms_fields ms)
             else ms_fields ms @ [(n, f)])\<rparr>)))"
| "state_forwards (AlterUniqueTogether m ut) st =
     (case st m of
        None \<Rightarrow> None
      | Some ms \<Rightarrow> Some (st(m \<mapsto> ms\<lparr>ms_unique_together := ut\<rparr>)))"

fun apply_operations :: "migration_operation list \<Rightarrow> project_state \<Rightarrow> project_state option" where
  "apply_operations [] st = Some st"
| "apply_operations (x # xs) st =
     (case state_forwards x st of None \<Rightarrow> None | Some st' \<Rightarrow> apply_operations xs st')"

definition Migration_0003_operations :: "migration_operation list" where
  "Migration_0003_operations =
     [RemoveField ''title'' ''rating'',
      AlterField ''review'' ''text'' ''TextField'',
      AlterUniqueTogether ''review'' [[''title'', ''author'']]]"

subsection \<open>A small database\<close>

text \<open>
  Two users, one category, one genre, one title in that category and of that genre, one
  review of the title with one comment; and a project state in which \<^verbatim>\<open>title\<close> still
  has the field \<^verbatim>\<open>rating\<close>.
\<close>

definition example_db :: db where
  "example_db =
     \<lparr>users =
        [\<lparr>user_id = 1, username = ''admin'', email = ''a@x.com'', bio = [], role = ''admin'',
          is_superuser = False\<rparr>,
         \<lparr>user_id = 2, username = ''bob'', email = ''b@x.com'', bio = [], role = ''user'',
          is_superuser = False\<rparr>],
      categories = [\<lparr>category_id = 1, category_name = ''Film'', category_slug = ''film''\<rparr>],
      genres = [\<lparr>genre_id = 1, genre_name = ''Drama'', genre_slug = ''drama''\<rparr>],
      titles =
        [\<lparr>title_id = 1, title_name = ''T1'', year = 1999, description = ''d'',
          category = Some 1\<rparr>],
      genre_titles = [\<lparr>genre_title_id = 1, gt_title = 1, gt_genre = 1\<rparr>],
      reviews =
        [\<lparr>review_id = 1, review_title = 1, review_text = ''good'', review_author = 1,
          score = 8, review_pub_date = 100\<rparr>],
      comments =
        [\<lparr>comment_id = 1, comment_review = 1, comment_text = ''yes'', comment_author = 2,
          comment_pub_date = 150\<rparr>]\<rparr>"

definition example_constants :: constants where
  "example_constants =
     \<lparr>EMAIL_MAX_LENGTH = 254, FIELD_MAX_LENGTH = 256, LENGTH_TO_DISPLAY = 20,
      MAX_SCORE_VALUE = 10, MIN_SCORE_VALUE = 1, USERNAME_MAX_LENGTH = 150\<rparr>"

definition example_state :: project_state where
  "example_state =
     [''title'' \<mapsto>
        \<lparr>ms_fields = [(''id'', ''AutoField''), (''name'', ''CharField''),
                      (''year'', ''PositiveSmallIntegerField''), (''rating'', ''IntegerField''),
                      (''description'', ''TextField''), (''category'', ''ForeignKey'')],
         ms_unique_together = []\<rparr>,
      ''review'' \<mapsto>
        \<lparr>ms_fields = [(''id'', ''AutoField''), (''title'', ''ForeignKey''),
                      (''text'', ''CharField''), (''author'', ''ForeignKey''),
                      (''score'', ''PositiveSmallIntegerField''),
                      (''pub_date'', ''DateTimeField'')],
         ms_unique_together = []\<rparr>]"

subsection \<open>Further predicates on the database\<close>

text \<open>No two rows of \<^verbatim>\<open>GenreTitle\<close> link the same title and genre.\<close>

definition GenreTitle_pairs_unique :: "db \<Rightarrow> bool" where
  "GenreTitle_pairs_unique db = distinct (map (\<lambda>g. (gt_title g, gt_genre g)) (genre_titles db))"

text \<open>No two rows of \<^verbatim>\<open>Comment\<close> have the same primary key.\<close>

definition Comment_pk_unique :: "db \<Rightarrow> bool" where
  "Comment_pk_unique db = distinct (map comment_id (comments db))"

text \<open>The score of a review lies between the two constants, inclusive.\<close>

definition score_in_range :: "constants \<Rightarrow> Review \<Rightarrow> bool" where
  "score_in_range c r = (MIN_SCORE_VALUE c \<le> score r \<and> score r \<le> MAX_SCORE_VALUE c)"

section \<open>Auxiliary facts\<close>

lemma fold_max_ge: "a \<le> fold max ids (a::nat)"
  by (induction ids arbitrary: a) (auto intro: order_trans[OF max.cobounded2])

lemma fold_max_mem: "x \<in> set ids \<Longrightarrow> x \<le> fold max ids (a::nat)"
proof (induction ids arbitrary: a)
  case Nil
  then show ?case by simp
next
  case (Cons y ys)
  show ?case
  proof (cases "x = y")
    case True
    have "x \<le> max y a" using True by simp
    also have "\<dots> \<le> fold max ys (max y a)" by (rule fold_max_ge)
    finally show ?thesis by simp
  next
    case False
    with Cons show ?thesis by simp
  qed
qed

lemma next_pk_fresh: "next_pk ids \<notin> set ids"
proof
  assume "next_pk ids \<in> set ids"
  then have "next_pk ids \<le> fold max ids 0" by (rule fold_max_mem)
  then show False by (simp add: next_pk_def)
qed

subsection \<open>The uniqueness constraint of reviews is an invariant\<close>

lemma distinct_map_replace:
  assumes "distinct (map k xs)" "distinct (map f xs)"
    and "\<And>x. x \<in> set xs \<Longrightarrow> k x \<noteq> k r \<Longrightarrow> f x \<noteq> f r"
  shows "distinct (map f (map (\<lambda>x. if k x = k r then r else x) xs))"
  using assms
proof (induction xs)
  case Nil
  then show ?case by simp
next
  case (Cons x xs)
  show ?case
  proof (cases "k x = k r")
    case True
    have "\<And>y. y \<in> set xs \<Longrightarrow> k y \<noteq> k r" using Cons.prems(1) True by (auto simp: image_iff)
    then have same: "map (\<lambda>x. if k x = k r then r else x) xs = xs"
      by (simp add: map_idI)
    have "f r \<notin> f ` set xs" using Cons.prems(3) \<open>\<And>y. y \<in> set xs \<Longrightarrow> k y \<noteq> k r\<close> by force
    then show ?thesis using True same Cons.prems(2) by simp
  next
    case False
    have ih: "distinct (map f (map (\<lambda>x. if k x = k r then r else x) xs))"
      using Cons by simp
    have fr: "f x \<noteq> f r" using Cons.prems(3) False by simp
    have fxs: "f x \<notin> f ` set xs" using Cons.prems(2) by simp
    have ne: "f x \<noteq> f (if k y = k r then r else y)" if "y \<in> set xs" for y
      using that fr fxs by (cases "k y = k r") auto
    have notin: "f x \<notin> set (map f (map (\<lambda>x. if k x = k r then r else x) xs))"
    proof
      assume "f x \<in> set (map f (map (\<lambda>x. if k x = k r then r else x) xs))"
      then obtain y where "y \<in> set xs" "f x = f (if k y = k r then r else y)"
        by (auto simp del: if_image_distrib)
      with ne show False by blast
    qed
    have "map f (map (\<lambda>x. if k x = k r then r else x) (x # xs)) =
        f x # map f (map (\<lambda>x. if k x = k r then r else x) xs)"
      using False by simp
    then show ?thesis using notin ih by (simp only: distinct.simps simp_thms)
  qed
qed

lemma map_key_replace:
  "map k (map (\<lambda>x. if k x = k r then r else x) xs) = map k xs"
  by (induction xs) auto

lemma Review_insert_inv:
  assumes "Review_pk_unique db" "unique_review db" "review_id r \<notin> set (map review_id (reviews db))"
    "Review_insert db r = Inr db'"
  shows "Review_pk_unique db' \<and> unique_review db'"
proof -
  from assms(4) have c: "Review_constraints db r" and db': "db' = db\<lparr>reviews := reviews db @ [r]\<rparr>"
    by (auto simp: Review_insert_def split: if_splits)
  have "(review_title r, review_author r) \<noteq> (review_title x, review_author x)"
    if "x \<in> set (reviews db)" for x
  proof -
    from that assms(3) have "review_id x \<noteq> review_id r" by (auto simp: image_iff)
    with c that show ?thesis by (auto simp: Review_constraints_def list_ex_iff)
  qed
  then have "(review_title r, review_author r) \<notin>
      (\<lambda>r. (review_title r, review_author r)) ` set (reviews db)"
    by blast
  then show ?thesis
    using assms(1,2,3) by (simp add: db' Review_pk_unique_def unique_review_def)
qed

lemma Review_create_inv:
  assumes "Review_pk_unique db" "unique_review db" "Review_create db now t txt a sc pd = Inr db'"
  shows "Review_pk_unique db' \<and> unique_review db'"
proof -
  from assms(3) obtain d where
    "Review_insert db \<lparr>review_id = next_pk (map review_id (reviews db)), review_title = t,
             review_text = txt, review_author = a, score = sc, review_pub_date = d\<rparr> = Inr db'"
    by (auto simp: Review_create_def split: option.splits)
  then show ?thesis
    using Review_insert_inv[OF assms(1,2)] next_pk_fresh[of "map review_id (reviews db)"]
    by (metis Review.select_convs(1))
qed

lemma Review_save_inv:
  assumes "Review_pk_unique db" "unique_review db" "Review_save db now r = Inr db'"
  shows "Review_pk_unique db' \<and> unique_review db'"
proof (cases "review_id r \<in> set (map review_id (reviews db))")
  case True
  let ?r = "r\<lparr>review_pub_date := review_pub_date r\<rparr>"
  from assms(3) True have c: "Review_constraints db r"
    and db': "db' = db\<lparr>reviews := map (\<lambda>x. if review_id x = review_id r then r else x) (reviews db)\<rparr>"
    by (auto simp: Review_save_def pub_date_pre_save_def DateTimeField_pre_save_def split: if_splits)
  have "distinct (map (\<lambda>r. (review_title r, review_author r))
          (map (\<lambda>x. if review_id x = review_id r then r else x) (reviews db)))"
    using assms(1,2) c
    by (intro distinct_map_replace)
       (auto simp: Review_pk_unique_def unique_review_def Review_constraints_def list_ex_iff)
  moreover have "map review_id (map (\<lambda>x. if review_id x = review_id r then r else x) (reviews db))
      = map review_id (reviews db)"
    by (rule map_key_replace)
  ultimately show ?thesis
    using assms(1) by (simp add: db' unique_review_def Review_pk_unique_def del: map_map)
next
  case False
  with assms(3) have "Review_insert db (r\<lparr>review_pub_date := now\<rparr>) = Inr db'"
    by (auto simp: Review_save_def pub_date_pre_save_def DateTimeField_pre_save_def)
  then show ?thesis using Review_insert_inv[OF assms(1,2), of "r\<lparr>review_pub_date := now\<rparr>" db'] False
    by simp
qed

lemma reviews_filter_inv:
  "Review_pk_unique db \<Longrightarrow> unique_review db \<Longrightarrow> reviews db' = filter P (reviews db) \<Longrightarrow>
   Review_pk_unique db' \<and> unique_review db'"
  by (simp add: Review_pk_unique_def unique_review_def distinct_map_filter)

lemma reviews_same_inv:
  "Review_pk_unique db \<Longrightarrow> unique_review db \<Longrightarrow> reviews db' = reviews db \<Longrightarrow>
   Review_pk_unique db' \<and> unique_review db'"
  by (simp add: Review_pk_unique_def unique_review_def)

lemma apply_op_inv:
  assumes "Review_pk_unique db" "unique_review db" "apply_op db now q = Inr db'"
  shows "Review_pk_unique db' \<and> unique_review db'"
proof (cases q)
  case (CreateTitle nm yr d cat)
  with assms(3) have "reviews db' = reviews db"
    by (auto simp: Title_create_def split: if_splits)
  then show ?thesis using assms(1,2) by (rule reviews_same_inv[rotated 2])
next
  case (CreateGenreTitle t g)
  with assms(3) have "reviews db' = reviews db"
    by (auto simp: GenreTitle_create_def split: if_splits)
  then show ?thesis using assms(1,2) by (rule reviews_same_inv[rotated 2])
next
  case (CreateReview t tx a sc pd)
  with assms(3) have "Review_create db now t tx a sc pd = Inr db'" by simp
  with assms(1,2) show ?thesis by (rule Review_create_inv)
next
  case (SaveReview r)
  with assms(3) have "Review_save db now r = Inr db'" by simp
  with assms(1,2) show ?thesis by (rule Review_save_inv)
next
  case (CreateComment r tx a pd)
  with assms(3) have "reviews db' = reviews db"
    by (auto simp: Comment_create_def Comment_insert_def split: if_splits option.splits)
  then show ?thesis using assms(1,2) by (rule reviews_same_inv[rotated 2])
next
  case (SaveComment c)
  with assms(3) have "reviews db' = reviews db"
    by (auto simp: Comment_save_def Comment_insert_def split: if_splits option.splits)
  then show ?thesis using assms(1,2) by (rule reviews_same_inv[rotated 2])
next
  case (DeleteTitle k)
  with assms(3) have "reviews db' = filter (\<lambda>r. review_title r \<noteq> k) (reviews db)"
    by (auto simp: Title_delete_def Let_def Review_title_on_delete_def)
  then show ?thesis using assms(1,2) by (rule reviews_filter_inv[rotated 2])
next
  case (DeleteCategory k)
  with assms(3) have "reviews db' = reviews db"
    by (auto simp: Category_delete_def)
  then show ?thesis using assms(1,2) by (rule reviews_same_inv[rotated 2])
next
  case (DeleteGenre k)
  with assms(3) have "reviews db' = reviews db"
    by (auto simp: Genre_delete_def)
  then show ?thesis using assms(1,2) by (rule reviews_same_inv[rotated 2])
next
  case (DeleteUser k)
  with assms(3) have "reviews db' = filter (\<lambda>r. review_author r \<noteq> k) (reviews db)"
    by (auto simp: User_delete_def Let_def Review_author_on_delete_def)
  then show ?thesis using assms(1,2) by (rule reviews_filter_inv[rotated 2])
next
  case (DeleteReview k)
  with assms(3) have "reviews db' = filter (\<lambda>r. review_id r \<noteq> k) (reviews db)"
    by (auto simp: Review_delete_def)
  then show ?thesis using assms(1,2) by (rule reviews_filter_inv[rotated 2])
next
  case (DeleteComment k)
  with assms(3) have "reviews db' = reviews db"
    by (auto simp: Comment_delete_def)
  then show ?thesis using assms(1,2) by (rule reviews_same_inv[rotated 2])
qed

lemma Review_create_duplicate:
  assumes "r \<in> set (reviews db)"
  shows "Review_create db now (review_title r) txt (review_author r) sc pd = Inl IntegrityError"
proof -
  have "review_id r \<noteq> next_pk (map review_id (reviews db))"
    using assms next_pk_fresh[of "map review_id (reviews db)"] by (auto simp: image_iff)
  then have "\<not> Review_constraints db
     \<lparr>review_id = next_pk (map review_id (reviews db)), review_title = review_title r,
      review_text = txt, review_author = review_author r, score = sc, review_pub_date = d\<rparr>" for d
    using assms by (auto simp: Review_constraints_def list_ex_iff)
  then show ?thesis
    by (simp add: Review_create_def Review_insert_def pub_date_pre_save_def
        DateTimeField_pre_save_def)
qed


lemmas ex_simps = example_db_def next_pk_def pub_date_pre_save_def DateTimeField_pre_save_def
  PositiveSmallIntegerField_db_check_def

subsection \<open>Publication dates\<close>

lemma map_replace_same:
  assumes "distinct (map k xs)" "x0 \<in> set xs" "k r = k x0" "p r = p x0"
  shows "map p (map (\<lambda>x. if k x = k r then r else x) xs) = map p xs"
proof -
  have "p (if k x = k r then r else x) = p x" if "x \<in> set xs" for x
  proof (cases "k x = k r")
    case True
    with assms that have "x = x0" by (metis distinct_map inj_onD)
    with assms True show ?thesis by simp
  next
    case False
    then show ?thesis by simp
  qed
  then show ?thesis by (simp add: comp_def cong: map_cong)
qed

lemma Review_create_pub_date:
  "Review_create db now t txt a sc pd = Review_create db now t txt a sc None"
  by (simp add: Review_create_def pub_date_pre_save_def DateTimeField_pre_save_def)

lemma Review_create_now:
  assumes "Review_create db now t txt a sc pd = Inr db'"
  shows "map review_pub_date (reviews db') = map review_pub_date (reviews db) @ [now]"
  using assms
  by (auto simp: Review_create_def Review_insert_def pub_date_pre_save_def
      DateTimeField_pre_save_def split: if_splits)

lemma Review_save_keeps_pub_date:
  assumes "Review_pk_unique db" "r0 \<in> set (reviews db)" "review_id r = review_id r0"
    "review_pub_date r = review_pub_date r0" "Review_save db now r = Inr db'"
  shows "map review_pub_date (reviews db') = map review_pub_date (reviews db)"
proof -
  have "review_id r \<in> set (map review_id (reviews db))" using assms(2,3) by force
  with assms(5) have
    "db' = db\<lparr>reviews := map (\<lambda>x. if review_id x = review_id r then r else x) (reviews db)\<rparr>"
    by (auto simp: Review_save_def pub_date_pre_save_def DateTimeField_pre_save_def
        split: if_splits)
  moreover have "map review_pub_date (map (\<lambda>x. if review_id x = review_id r then r else x) (reviews db))
      = map review_pub_date (reviews db)"
    using assms(1-4) unfolding Review_pk_unique_def by (rule map_replace_same)
  ultimately show ?thesis by (simp del: map_map)
qed

lemma Comment_create_pub_date:
  "Comment_create db now r txt a pd = Comment_create db now r txt a None"
  by (simp add: Comment_create_def pub_date_pre_save_def DateTimeField_pre_save_def)

lemma Comment_create_now:
  assumes "Comment_create db now r txt a pd = Inr db'"
  shows "map comment_pub_date (comments db') = map comment_pub_date (comments db) @ [now]"
  using assms
  by (auto simp: Comment_create_def Comment_insert_def pub_date_pre_save_def
      DateTimeField_pre_save_def split: if_splits)

lemma Comment_save_keeps_pub_date:
  assumes "Comment_pk_unique db" "c0 \<in> set (comments db)" "comment_id c = comment_id c0"
    "comment_pub_date c = comment_pub_date c0" "Comment_save db now c = Inr db'"
  shows "map comment_pub_date (comments db') = map comment_pub_date (comments db)"
proof -
  have "comment_id c \<in> set (map comment_id (comments db))" using assms(2,3) by force
  with assms(5) have
    "db' = db\<lparr>comments := map (\<lambda>x. if comment_id x = comment_id c then c else x) (comments db)\<rparr>"
    by (auto simp: Comment_save_def pub_date_pre_save_def DateTimeField_pre_save_def
        split: if_splits)
  moreover have "map comment_pub_date (map (\<lambda>x. if comment_id x = comment_id c then c else x) (comments db))
      = map comment_pub_date (comments db)"
    using assms(1-4) unfolding Comment_pk_unique_def by (rule map_replace_same)
  ultimately show ?thesis by (simp del: map_map)
qed

subsection \<open>Score validation\<close>

lemma score_validators_pass:
  "run_validators (Review_score_validators c rng) sc = Inr () \<Longrightarrow>
   MIN_SCORE_VALUE c \<le> sc \<and> sc \<le> MAX_SCORE_VALUE c"
  by (auto simp: Review_score_validators_def MinValueValidator_def MaxValueValidator_def
      split: if_splits)

lemma score_validators_fail:
  "sc < MIN_SCORE_VALUE c \<or> MAX_SCORE_VALUE c < sc \<Longrightarrow>
   run_validators (Review_score_validators c rng) sc = Inl ValidationError"
  by (auto simp: Review_score_validators_def MinValueValidator_def MaxValueValidator_def)

lemma Review_full_clean_out_of_range:
  assumes "sc < MIN_SCORE_VALUE c \<or> MAX_SCORE_VALUE c < sc"
  shows "Review_full_clean c rng db pko t txt a sc = Inl ValidationError"
  using score_validators_fail[OF assms, of rng] by (simp add: Review_full_clean_def)

lemma Review_full_clean_in_range:
  assumes "Review_full_clean c rng db pko t txt a sc = Inr ()"
  shows "MIN_SCORE_VALUE c \<le> sc \<and> sc \<le> MAX_SCORE_VALUE c"
proof -
  from assms have "run_validators (Review_score_validators c rng) sc = Inr ()"
    by (auto simp: Review_full_clean_def split: if_splits sum.splits)
  then show ?thesis by (rule score_validators_pass)
qed

lemma Review_validated_create_in_range:
  assumes "list_all (score_in_range c) (reviews db)"
    "Review_validated_create c rng db now t txt a sc pd = Inr db'"
  shows "list_all (score_in_range c) (reviews db')"
proof -
  from assms(2) have ok: "Review_full_clean c rng db None t txt a sc = Inr ()"
    and cr: "Review_create db now t txt a sc pd = Inr db'"
    by (auto simp: Review_validated_create_def split: sum.splits)
  from cr obtain r where r: "reviews db' = reviews db @ [r]" "score r = sc"
    by (auto simp: Review_create_def Review_insert_def split: option.splits if_splits)
  with Review_full_clean_in_range[OF ok] assms(1) show ?thesis
    by (simp add: score_in_range_def)
qed

lemma Review_create_nonneg:
  "Review_create db now t txt a sc pd = Inr db' \<Longrightarrow> 0 \<le> sc"
  by (auto simp: Review_create_def Review_insert_def Review_constraints_def
      PositiveSmallIntegerField_db_check_def split: option.splits if_splits)

lemmas clean_simps = Review_validated_create_def Review_full_clean_def Review_score_validators_def
  range_validators_def MinValueValidator_def MaxValueValidator_def example_constants_def
  Review_create_def Review_insert_def Review_constraints_def score_in_range_def

subsection \<open>Year of a title\<close>

lemma Title_year_clean_iff:
  "(Title_year_clean cy rng v = Inr ()) =
     (v \<le> cy \<and> (case fst rng of None \<Rightarrow> True | Some lo \<Rightarrow> lo \<le> v) \<and>
      (case snd rng of None \<Rightarrow> True | Some hi \<Rightarrow> v \<le> hi))"
  by (auto simp: Title_year_clean_def Title_year_validators_def range_validators_def
      validate_year_def MinValueValidator_def MaxValueValidator_def split: option.splits)

lemma Title_create_nonneg:
  "Title_create db nm v d cat = Inr db' \<Longrightarrow> 0 \<le> v"
  by (auto simp: Title_create_def PositiveSmallIntegerField_db_check_def split: if_splits)

subsection \<open>Migration 0003 removes the rating\<close>

lemma state_forwards_other:
  "state_forwards x st = Some st' \<Longrightarrow>
   (case x of RemoveField m _ \<Rightarrow> m | AlterField m _ _ \<Rightarrow> m | AlterUniqueTogether m _ \<Rightarrow> m) \<noteq> k \<Longrightarrow>
   st' k = st k"
  by (cases x) (auto split: option.splits if_splits)

lemma RemoveField_removes:
  "state_forwards (RemoveField m n) st = Some st' \<Longrightarrow>
   \<exists>ms. st' m = Some ms \<and> n \<notin> set (map fst (ms_fields ms))"
  by (auto split: option.splits if_splits)

lemma Migration_0003_removes_rating:
  assumes "apply_operations Migration_0003_operations st = Some st'"
  shows "\<exists>ms. st' ''title'' = Some ms \<and> ''rating'' \<notin> set (map fst (ms_fields ms))"
proof -
  from assms obtain s1 s2 where
    1: "state_forwards (RemoveField ''title'' ''rating'') st = Some s1" and
    2: "state_forwards (AlterField ''review'' ''text'' ''TextField'') s1 = Some s2" and
    3: "state_forwards (AlterUniqueTogether ''review'' [[''title'', ''author'']]) s2 = Some st'"
    by (auto simp: Migration_0003_operations_def split: option.splits)
  from 2 have "s2 ''title'' = s1 ''title''" by (rule state_forwards_other) simp
  moreover from 3 have "st' ''title'' = s2 ''title''" by (rule state_forwards_other) simp
  ultimately show ?thesis using RemoveField_removes[OF 1] by simp
qed

section \<open>Authorization predicates\<close>

text \<open>
  C7. For every user, \<^verbatim>\<open>is_admin\<close> holds exactly when the role is admin or the superuser
  flag is set, and \<^verbatim>\<open>is_moderator\<close> exactly when the role is moderator. Both are
  properties computed from the current role and flag: after the role or the flag is
  assigned, the next access answers for the new values, and neither name is a stored
  field of the table.
\<close>

theorem is_admin_is_moderator_derived:
  "is_admin u = (role u = ''admin'' \<or> is_superuser u)
   \<and> is_moderator u = (role u = ''moderator'')
   \<and> is_admin (u\<lparr>role := r, is_superuser := f\<rparr>) = (r = ''admin'' \<or> f)
   \<and> is_moderator (u\<lparr>role := r, is_superuser := f\<rparr>) = (r = ''moderator'')
   \<and> ''is_admin'' \<notin> set User_fields \<and> ''is_moderator'' \<notin> set User_fields"
  by (simp add: is_admin_def is_moderator_def ADMIN_def MODERATOR_def User_fields_def)

section \<open>Default ordering of users\<close>

text \<open>
  C10. Listing the users with no explicit ordering returns all of them, each as often as
  it is stored, ordered by username ascending.
\<close>

theorem User_default_ordering:
  "sorted (map username (User_objects_all db)) \<and> mset (User_objects_all db) = mset (users db)"
  by (simp add: User_objects_all_def)

section \<open>Deletion\<close>

text \<open>
  C4. Deleting a title deletes the title, every review whose title reference is that
  title and no other review, and every comment whose review reference is one of those
  reviews: afterwards no title row has the key, no review refers to it, no comment
  refers to a deleted review, and no genre link refers to it.
\<close>

theorem Title_delete_cascade:
  "k \<notin> set (map title_id (titles (Title_delete db k)))
   \<and> k \<notin> set (map review_title (reviews (Title_delete db k)))
   \<and> reviews (Title_delete db k) = filter (\<lambda>r. review_title r \<noteq> k) (reviews db)
   \<and> set (map comment_review (comments (Title_delete db k)))
       \<inter> set (map review_id (filter (\<lambda>r. review_title r = k) (reviews db))) = {}
   \<and> k \<notin> set (map gt_title (genre_titles (Title_delete db k)))"
  by (auto simp: Title_delete_def Let_def Review_title_on_delete_def
      Comment_review_on_delete_def GenreTitle_title_on_delete_def)

text \<open>
  C5. Deleting a category deletes no title: the table of titles keeps its rows, in
  order, each with its key, name, year and description; the category of a row that
  referred to the deleted category is cleared and every other category is kept; the
  genre links are untouched.
\<close>

theorem Category_delete_set_null:
  "length (titles (Category_delete db k)) = length (titles db)
   \<and> map title_id (titles (Category_delete db k)) = map title_id (titles db)
   \<and> map title_name (titles (Category_delete db k)) = map title_name (titles db)
   \<and> map year (titles (Category_delete db k)) = map year (titles db)
   \<and> map description (titles (Category_delete db k)) = map description (titles db)
   \<and> map category (titles (Category_delete db k)) =
       map (\<lambda>t. if category t = Some k then None else category t) (titles db)
   \<and> genre_titles (Category_delete db k) = genre_titles db"
  by (simp add: Category_delete_def Title_category_on_delete_def)

section \<open>One review per title and author\<close>

text \<open>
  C1. For every title and author at most one review can exist. Creating a review for a
  pair that already has one fails with an integrity error raised by the storage layer,
  and the failed creation returns no new database: the existing review is unchanged.
  Uniqueness of the pair (with uniqueness of the primary key) is kept by every
  operation on the database that succeeds.
\<close>

theorem unique_review_enforced:
  "(r \<in> set (reviews db) \<longrightarrow>
      Review_create db now (review_title r) txt (review_author r) sc pd = Inl IntegrityError)
   \<and> (Review_pk_unique db \<and> unique_review db \<and> apply_op db now q = Inr db' \<longrightarrow>
      Review_pk_unique db' \<and> unique_review db')"
  using Review_create_duplicate apply_op_inv by blast

theorem unique_review_enforced_witness:
  "Review_create example_db 200 1 ''again'' 1 5 None = Inl IntegrityError
   \<and> unique_review
       (example_db\<lparr>reviews := reviews example_db @
          [\<lparr>review_id = 2, review_title = 1, review_text = ''fine'', review_author = 2,
            score = 5, review_pub_date = 200\<rparr>]\<rparr>)"
proof -
  let ?r = "\<lparr>review_id = 1, review_title = 1, review_text = ''good'', review_author = 1,
          score = 8, review_pub_date = 100\<rparr>"
  let ?db' = "example_db\<lparr>reviews := reviews example_db @
          [\<lparr>review_id = 2, review_title = 1, review_text = ''fine'', review_author = 2,
            score = 5, review_pub_date = 200\<rparr>]\<rparr>"
  have 1: "?r \<in> set (reviews example_db)" by (simp add: example_db_def)
  have 2: "Review_pk_unique example_db" "unique_review example_db"
    by (simp_all add: example_db_def Review_pk_unique_def unique_review_def)
  have 3: "apply_op example_db 200 (CreateReview 1 ''fine'' 2 5 None) = Inr ?db'"
    by (simp add: Review_create_def Review_insert_def Review_constraints_def ex_simps)
  show ?thesis
    using unique_review_enforced[of ?r example_db 200 "''again''" 5 None
        "CreateReview 1 ''fine'' 2 5 None" ?db'] 1 2 3
    by simp
qed

section \<open>Genre links\<close>

text \<open>
  C8, as the code has it. A \<^verbatim>\<open>GenreTitle\<close> row has a primary key of its own and the
  table has no uniqueness constraint: a link for an existing title and an existing genre
  is created under a fresh key whether or not the pair is linked already. A link is
  deleted with its title and with its genre: after either delete no link refers to the
  deleted row, and the links of the other titles and genres are kept.
\<close>

theorem GenreTitle_surrogate_key_and_cascade:
  "(t \<in> set (map title_id (titles db)) \<and> g \<in> set (map genre_id (genres db)) \<longrightarrow>
      GenreTitle_create db t g =
        Inr (db\<lparr>genre_titles := genre_titles db @
               [\<lparr>genre_title_id = next_pk (map genre_title_id (genre_titles db)),
                 gt_title = t, gt_genre = g\<rparr>]\<rparr>)
      \<and> next_pk (map genre_title_id (genre_titles db))
           \<notin> set (map genre_title_id (genre_titles db)))
   \<and> genre_titles (Title_delete db k) = filter (\<lambda>x. gt_title x \<noteq> k) (genre_titles db)
   \<and> genre_titles (Genre_delete db k) = filter (\<lambda>x. gt_genre x \<noteq> k) (genre_titles db)
   \<and> k \<notin> set (map gt_title (genre_titles (Title_delete db k)))
   \<and> k \<notin> set (map gt_genre (genre_titles (Genre_delete db k)))"
  using next_pk_fresh[of "map genre_title_id (genre_titles db)"]
  by (auto simp: GenreTitle_create_def Title_delete_def Genre_delete_def Let_def
      GenreTitle_title_on_delete_def GenreTitle_genre_on_delete_def)

theorem GenreTitle_surrogate_key_and_cascade_witness:
  "GenreTitle_create example_db 1 1 =
       Inr (example_db\<lparr>genre_titles := genre_titles example_db @
              [\<lparr>genre_title_id = 2, gt_title = 1, gt_genre = 1\<rparr>]\<rparr>)
   \<and> genre_titles (Title_delete example_db 1) = []
   \<and> genre_titles (Genre_delete example_db 1) = []"
proof -
  have "1 \<in> set (map title_id (titles example_db)) \<and> 1 \<in> set (map genre_id (genres example_db))"
    by (simp add: example_db_def)
  then show ?thesis
    using GenreTitle_surrogate_key_and_cascade[of 1 example_db 1 1]
    by (simp add: ex_simps)
qed

text \<open>
  C8 as stated fails: in a database where no two links have the same title and genre,
  creating the link of title 1 and genre 1 a second time succeeds and leaves two rows
  for the pair.
\<close>

theorem GenreTitle_duplicate_pair_counterexample:
  "GenreTitle_pairs_unique example_db
   \<and> GenreTitle_create example_db 1 1 =
       Inr (example_db\<lparr>genre_titles :=
              [\<lparr>genre_title_id = 1, gt_title = 1, gt_genre = 1\<rparr>,
               \<lparr>genre_title_id = 2, gt_title = 1, gt_genre = 1\<rparr>]\<rparr>)
   \<and> \<not> GenreTitle_pairs_unique
         (example_db\<lparr>genre_titles :=
              [\<lparr>genre_title_id = 1, gt_title = 1, gt_genre = 1\<rparr>,
               \<lparr>genre_title_id = 2, gt_title = 1, gt_genre = 1\<rparr>]\<rparr>)"
  by (simp add: GenreTitle_pairs_unique_def GenreTitle_create_def ex_simps)

section \<open>Publication dates\<close>

text \<open>
  C9, as the code has it. For a review and for a comment, \<^verbatim>\<open>pub_date\<close> is assigned
  at creation from the clock: a \<^verbatim>\<open>pub_date\<close> supplied by the caller changes nothing,
  and the new row carries the current time. Saving an existing row whose instance
  carries the stored \<^verbatim>\<open>pub_date\<close> leaves every stored \<^verbatim>\<open>pub_date\<close> as it was.
\<close>

theorem pub_date_set_at_creation:
  "Review_create db now t txt a sc pd = Review_create db now t txt a sc None
   \<and> (Review_create db now t txt a sc pd = Inr db' \<longrightarrow>
        map review_pub_date (reviews db') = map review_pub_date (reviews db) @ [now])
   \<and> (Review_pk_unique db \<and> r0 \<in> set (reviews db) \<and> review_id r = review_id r0 \<and>
       review_pub_date r = review_pub_date r0 \<and> Review_save db now r = Inr db1 \<longrightarrow>
        map review_pub_date (reviews db1) = map review_pub_date (reviews db))
   \<and> Comment_create db now k txt a pd = Comment_create db now k txt a None
   \<and> (Comment_create db now k txt a pd = Inr db2 \<longrightarrow>
        map comment_pub_date (comments db2) = map comment_pub_date (comments db) @ [now])
   \<and> (Comment_pk_unique db \<and> c0 \<in> set (comments db) \<and> comment_id c = comment_id c0 \<and>
       comment_pub_date c = comment_pub_date c0 \<and> Comment_save db now c = Inr db3 \<longrightarrow>
        map comment_pub_date (comments db3) = map comment_pub_date (comments db))"
proof (intro conjI impI)
  show "Review_create db now t txt a sc pd = Review_create db now t txt a sc None"
    by (rule Review_create_pub_date)
  show "Comment_create db now k txt a pd = Comment_create db now k txt a None"
    by (rule Comment_create_pub_date)
next
  assume "Review_create db now t txt a sc pd = Inr db'"
  then show "map review_pub_date (reviews db') = map review_pub_date (reviews db) @ [now]"
    by (rule Review_create_now)
next
  assume "Comment_create db now k txt a pd = Inr db2"
  then show "map comment_pub_date (comments db2) = map comment_pub_date (comments db) @ [now]"
    by (rule Comment_create_now)
next
  assume "Review_pk_unique db \<and> r0 \<in> set (reviews db) \<and> review_id r = review_id r0 \<and>
       review_pub_date r = review_pub_date r0 \<and> Review_save db now r = Inr db1"
  then show "map review_pub_date (reviews db1) = map review_pub_date (reviews db)"
    by (blast intro: Review_save_keeps_pub_date)
next
  assume "Comment_pk_unique db \<and> c0 \<in> set (comments db) \<and> comment_id c = comment_id c0 \<and>
       comment_pub_date c = comment_pub_date c0 \<and> Comment_save db now c = Inr db3"
  then show "map comment_pub_date (comments db3) = map comment_pub_date (comments db)"
    by (blast intro: Comment_save_keeps_pub_date)
qed

theorem pub_date_set_at_creation_witness:
  "Review_create example_db 200 1 ''fine'' 2 5 (Some 3) =
     Inr (example_db\<lparr>reviews := reviews example_db @
          [\<lparr>review_id = 2, review_title = 1, review_text = ''fine'', review_author = 2,
            score = 5, review_pub_date = 200\<rparr>]\<rparr>)
   \<and> Review_save example_db 500
        \<lparr>review_id = 1, review_title = 1, review_text = ''better'', review_author = 1,
         score = 9, review_pub_date = 100\<rparr> =
       Inr (example_db\<lparr>reviews :=
              [\<lparr>review_id = 1, review_title = 1, review_text = ''better'', review_author = 1,
                score = 9, review_pub_date = 100\<rparr>]\<rparr>)
   \<and> Comment_create example_db 200 1 ''no'' 1 (Some 3) =
     Inr (example_db\<lparr>comments := comments example_db @
          [\<lparr>comment_id = 2, comment_review = 1, comment_text = ''no'', comment_author = 1,
            comment_pub_date = 200\<rparr>]\<rparr>)
   \<and> Comment_save example_db 500
        \<lparr>comment_id = 1, comment_review = 1, comment_text = ''well'', comment_author = 2,
         comment_pub_date = 150\<rparr> =
       Inr (example_db\<lparr>comments :=
              [\<lparr>comment_id = 1, comment_review = 1, comment_text = ''well'', comment_author = 2,
                comment_pub_date = 150\<rparr>]\<rparr>)
   \<and> map review_pub_date (reviews example_db) @ [200] = [100, 200]
   \<and> map comment_pub_date (comments example_db) @ [200] = [150, 200]"
proof -
  let ?ra = "\<lparr>review_id = 1, review_title = 1, review_text = ''good'', review_author = 1,
          score = 8, review_pub_date = 100\<rparr>"
  let ?r = "\<lparr>review_id = 1, review_title = 1, review_text = ''better'', review_author = 1,
         score = 9, review_pub_date = 100\<rparr>"
  let ?ca = "\<lparr>comment_id = 1, comment_review = 1, comment_text = ''yes'', comment_author = 2,
          comment_pub_date = 150\<rparr>"
  let ?c = "\<lparr>comment_id = 1, comment_review = 1, comment_text = ''well'', comment_author = 2,
         comment_pub_date = 150\<rparr>"
  let ?db' = "example_db\<lparr>reviews := reviews example_db @
          [\<lparr>review_id = 2, review_title = 1, review_text = ''fine'', review_author = 2,
            score = 5, review_pub_date = 200\<rparr>]\<rparr>"
  let ?db1 = "example_db\<lparr>reviews := [?r]\<rparr>"
  let ?db2 = "example_db\<lparr>comments := comments example_db @
          [\<lparr>comment_id = 2, comment_review = 1, comment_text = ''no'', comment_author = 1,
            comment_pub_date = 200\<rparr>]\<rparr>"
  let ?db3 = "example_db\<lparr>comments := [?c]\<rparr>"
  have 1: "Review_create example_db 200 1 ''fine'' 2 5 (Some 3) = Inr ?db'"
    by (simp add: Review_create_def Review_insert_def Review_constraints_def ex_simps)
  have 2: "Review_pk_unique example_db" "?ra \<in> set (reviews example_db)"
    "review_id ?r = review_id ?ra" "review_pub_date ?r = review_pub_date ?ra"
    by (simp_all add: Review_pk_unique_def example_db_def)
  have s2: "Review_save example_db 500 ?r = Inr ?db1"
    by (simp add: Review_save_def Review_constraints_def ex_simps)
  have 3: "Comment_create example_db 200 1 ''no'' 1 (Some 3) = Inr ?db2"
    by (simp add: Comment_create_def Comment_insert_def Comment_constraints_def ex_simps)
  have 4: "Comment_pk_unique example_db" "?ca \<in> set (comments example_db)"
    "comment_id ?c = comment_id ?ca" "comment_pub_date ?c = comment_pub_date ?ca"
    by (simp_all add: Comment_pk_unique_def example_db_def)
  have s4: "Comment_save example_db 500 ?c = Inr ?db3"
    by (simp add: Comment_save_def Comment_constraints_def ex_simps)
  have 5: "map review_pub_date (reviews example_db) @ [200] = [100, 200]"
    "map comment_pub_date (comments example_db) @ [200] = [150, 200]"
    by (simp_all add: example_db_def)
  show ?thesis
    using pub_date_set_at_creation[of example_db 200 1 "''fine''" 2 5 "Some 3" ?db' ?ra ?r ?db1
        1 ?db2 ?ca ?c ?db3] 1 2 s2 3 4 s4 5
    by simp
qed

text \<open>
  C9 as stated fails on update: saving the stored review, and the stored comment, with
  another \<^verbatim>\<open>pub_date\<close> on the instance replaces the stored value (100 by 5, 150 by 7).
\<close>

theorem pub_date_update_counterexample:
  "map review_pub_date (reviews example_db) = [100]
   \<and> Review_save example_db 500
        \<lparr>review_id = 1, review_title = 1, review_text = ''good'', review_author = 1,
         score = 8, review_pub_date = 5\<rparr> =
       Inr (example_db\<lparr>reviews :=
              [\<lparr>review_id = 1, review_title = 1, review_text = ''good'', review_author = 1,
                score = 8, review_pub_date = 5\<rparr>]\<rparr>)
   \<and> map comment_pub_date (comments example_db) = [150]
   \<and> Comment_save example_db 500
        \<lparr>comment_id = 1, comment_review = 1, comment_text = ''yes'', comment_author = 2,
         comment_pub_date = 7\<rparr> =
       Inr (example_db\<lparr>comments :=
              [\<lparr>comment_id = 1, comment_review = 1, comment_text = ''yes'', comment_author = 2,
                comment_pub_date = 7\<rparr>]\<rparr>)"
  by (simp add: Review_save_def Review_constraints_def Comment_save_def Comment_constraints_def
      ex_simps)

section \<open>Score of a review\<close>

text \<open>
  C2, as the code has it. Validating a review whose score lies outside the inclusive
  range of the two constants fails with a validation error, and so does a creation that
  validates first: nothing is written. When every stored review has its score in the
  range, it is so again after a creation that validated first. A creation that saves
  without validating is held to the check of the column: the score is not negative.
\<close>

theorem score_validated:
  "(sc < MIN_SCORE_VALUE c \<or> MAX_SCORE_VALUE c < sc \<longrightarrow>
      Review_full_clean c rng db pko t txt a sc = Inl ValidationError \<and>
      Review_validated_create c rng db now t txt a sc pd = Inl ValidationError)
   \<and> (list_all (score_in_range c) (reviews db) \<and>
       Review_validated_create c rng db now t txt a sc pd = Inr db' \<longrightarrow>
      list_all (score_in_range c) (reviews db'))
   \<and> (Review_create db now t txt a sc pd = Inr db1 \<longrightarrow> 0 \<le> sc)"
proof (intro conjI impI)
  assume h: "sc < MIN_SCORE_VALUE c \<or> MAX_SCORE_VALUE c < sc"
  then show "Review_full_clean c rng db pko t txt a sc = Inl ValidationError"
    by (rule Review_full_clean_out_of_range)
  from h have "Review_full_clean c rng db None t txt a sc = Inl ValidationError"
    by (rule Review_full_clean_out_of_range)
  then show "Review_validated_create c rng db now t txt a sc pd = Inl ValidationError"
    by (simp add: Review_validated_create_def)
next
  assume "list_all (score_in_range c) (reviews db) \<and>
       Review_validated_create c rng db now t txt a sc pd = Inr db'"
  then show "list_all (score_in_range c) (reviews db')"
    by (blast intro: Review_validated_create_in_range)
next
  assume "Review_create db now t txt a sc pd = Inr db1"
  then show "0 \<le> sc" by (rule Review_create_nonneg)
qed

theorem score_validated_witness:
  "Review_validated_create example_constants (None, None) example_db 200 1 ''fine'' 2 11 None =
     Inl ValidationError
   \<and> Review_validated_create example_constants (None, None) example_db 200 1 ''fine'' 2 10 None =
     Inr (example_db\<lparr>reviews := reviews example_db @
          [\<lparr>review_id = 2, review_title = 1, review_text = ''fine'', review_author = 2,
            score = 10, review_pub_date = 200\<rparr>]\<rparr>)
   \<and> list_all (score_in_range example_constants)
       (reviews (example_db\<lparr>reviews := reviews example_db @
          [\<lparr>review_id = 2, review_title = 1, review_text = ''fine'', review_author = 2,
            score = 10, review_pub_date = 200\<rparr>]\<rparr>))"
proof -
  let ?db' = "example_db\<lparr>reviews := reviews example_db @
          [\<lparr>review_id = 2, review_title = 1, review_text = ''fine'', review_author = 2,
            score = 10, review_pub_date = 200\<rparr>]\<rparr>"
  have 1: "(11::int) < MIN_SCORE_VALUE example_constants \<or> MAX_SCORE_VALUE example_constants < 11"
    by (simp add: example_constants_def)
  have 2: "list_all (score_in_range example_constants) (reviews example_db)"
    by (simp add: example_db_def example_constants_def score_in_range_def)
  have 3: "Review_validated_create example_constants (None, None) example_db 200 1 ''fine'' 2 10 None
      = Inr ?db'"
    by (simp add: clean_simps ex_simps)
  have 4: "Review_create example_db 200 1 ''fine'' 2 10 None = Inr ?db'"
    by (simp add: clean_simps ex_simps)
  show ?thesis
    using score_validated[of 11 example_constants "(None, None)" example_db None 1 "''fine''" 2
        200 None] score_validated[of 10 example_constants "(None, None)" example_db None 1
        "''fine''" 2 200 None ?db' ?db'] 1 2 3 4
    by simp
qed

text \<open>
  C2 as stated fails: with the range 1 to 10, saving a review of score 11 without
  validation raises nothing and stores the review.
\<close>

theorem score_unvalidated_counterexample:
  "MAX_SCORE_VALUE example_constants < 11
   \<and> Review_create example_db 200 1 ''fine'' 2 11 None =
       Inr (example_db\<lparr>reviews := reviews example_db @
          [\<lparr>review_id = 2, review_title = 1, review_text = ''fine'', review_author = 2,
            score = 11, review_pub_date = 200\<rparr>]\<rparr>)
   \<and> \<not> list_all (score_in_range example_constants)
       (reviews (example_db\<lparr>reviews := reviews example_db @
          [\<lparr>review_id = 2, review_title = 1, review_text = ''fine'', review_author = 2,
            score = 11, review_pub_date = 200\<rparr>]\<rparr>))"
  by (simp add: clean_simps ex_simps)

section \<open>Year of a title\<close>

text \<open>
  C3, as the code has it. \<^verbatim>\<open>validate_year\<close> fails with a validation error exactly
  when the value is greater than the current year, and passes every other value: it has
  no lower bound of its own. The year of a title is a \<^verbatim>\<open>PositiveSmallIntegerField\<close>:
  the field accepts a value exactly when it does not exceed the current year and lies
  within the bounds the backend reports for the column type, the table stores a title
  only when its year is not negative, and stores it whenever the year is not negative
  and no category is given.
\<close>

theorem year_validation:
  "(validate_year cy v = Inl ValidationError) = (cy < v)
   \<and> (validate_year cy v = Inr ()) = (v \<le> cy)
   \<and> (Title_year_clean cy rng v = Inr ()) =
       (v \<le> cy \<and> (case fst rng of None \<Rightarrow> True | Some lo \<Rightarrow> lo \<le> v) \<and>
        (case snd rng of None \<Rightarrow> True | Some hi \<Rightarrow> v \<le> hi))
   \<and> (Title_create db nm v d cat = Inr db' \<longrightarrow> 0 \<le> v)
   \<and> (0 \<le> v \<longrightarrow>
        Title_create db nm v d None =
          Inr (db\<lparr>titles := titles db @
                 [\<lparr>title_id = next_pk (map title_id (titles db)), title_name = nm, year = v,
                   description = d, category = None\<rparr>]\<rparr>))"
  using Title_year_clean_iff[of cy rng v] Title_create_nonneg[of db nm v d cat db']
  by (simp add: validate_year_def Title_create_def PositiveSmallIntegerField_db_check_def)

theorem year_validation_witness:
  "validate_year 2024 1999 = Inr ()
   \<and> Title_year_clean 2024 (Some 0, Some 32767) 1999 = Inr ()
   \<and> Title_create example_db ''T2'' 1999 ''d'' None =
       Inr (example_db\<lparr>titles := titles example_db @
              [\<lparr>title_id = 2, title_name = ''T2'', year = 1999, description = ''d'',
                category = None\<rparr>]\<rparr>)"
proof -
  let ?db' = "example_db\<lparr>titles := titles example_db @
              [\<lparr>title_id = 2, title_name = ''T2'', year = 1999, description = ''d'',
                category = None\<rparr>]\<rparr>"
  have 1: "Title_create example_db ''T2'' 1999 ''d'' None = Inr ?db'"
    by (simp add: Title_create_def ex_simps)
  show ?thesis
    using year_validation[of 2024 1999 "(Some 0, Some 32767)" example_db "''T2''" "''d''" None ?db'] 1
    by simp
qed

text \<open>
  C3 as stated fails: the year -1 does not exceed the current year 2024 and passes
  \<^verbatim>\<open>validate_year\<close>, but it is not accepted as the year of a title. The table refuses
  the row, and where the backend reports the bounds 0 and 32767 the field refuses the
  value.
\<close>

theorem year_lower_bound_counterexample:
  "(- 1 :: int) \<le> 2024
   \<and> validate_year 2024 (- 1) = Inr ()
   \<and> Title_create example_db ''T0'' (- 1) ''d'' None = Inl IntegrityError
   \<and> Title_year_clean 2024 (Some 0, Some 32767) (- 1) = Inl ValidationError"
  by (simp add: validate_year_def Title_create_def Title_year_clean_def
      Title_year_validators_def range_validators_def MinValueValidator_def
      PositiveSmallIntegerField_db_check_def)

section \<open>Rating\<close>

text \<open>
  C6. The rating of a title is not stored. Whatever the project state before it,
  migration 0003, when it applies, leaves the model of titles without a field
  \<^verbatim>\<open>rating\<close>, and the model of titles declares none. The rating is the aggregate of
  the scores of the reviews that refer to the title in the current database, and does
  not depend on the table of titles.
\<close>

theorem rating_not_stored:
  "(apply_operations Migration_0003_operations st = Some st' \<longrightarrow>
      (\<exists>ms. st' ''title'' = Some ms \<and> ''rating'' \<notin> set (map fst (ms_fields ms))))
   \<and> ''rating'' \<notin> set Title_fields
   \<and> rating agg db k = agg (map score (filter (\<lambda>r. review_title r = k) (reviews db)))
   \<and> rating agg (db\<lparr>titles := ts\<rparr>) k = rating agg db k"
  using Migration_0003_removes_rating[of st st']
  by (simp add: Title_fields_def rating_def)

theorem rating_not_stored_witness:
  "(\<exists>ms. example_state ''title'' = Some ms \<and> ''rating'' \<in> set (map fst (ms_fields ms)))
   \<and> (\<exists>st'. apply_operations Migration_0003_operations example_state = Some st'
      \<and> (\<exists>ms. st' ''title'' = Some ms \<and> ''rating'' \<notin> set (map fst (ms_fields ms))))
   \<and> rating sum_list example_db 1 = 8"
proof -
  obtain st' where 1: "apply_operations Migration_0003_operations example_state = Some st'"
    by (simp add: Migration_0003_operations_def example_state_def)
  have 2: "\<exists>ms. example_state ''title'' = Some ms \<and> ''rating'' \<in> set (map fst (ms_fields ms))"
    by (simp add: example_state_def)
  have 3: "sum_list (map score (filter (\<lambda>r. review_title r = 1) (reviews example_db))) = 8"
    by (simp add: example_db_def)
  show ?thesis
    using rating_not_stored[of example_state st' sum_list example_db 1 "[]"] 1 2 3 by simp
qed

end
